theory Spec2Isabelle
  imports Complex_Main "HOL-Library.Word" "HOL-Library.Log_Nat"
begin

unbundle bit_operations_syntax

section \<open>Python numbers\<close>

text \<open>
  Python integers are unbounded and are modelled as \<open>int\<close>; \<open>&\<close>, \<open>|\<close>, \<open>^\<close>,
  \<open><<\<close> and \<open>>>\<close> are \<open>AND\<close>, \<open>OR\<close>, \<open>XOR\<close>, \<open>push_bit\<close> and \<open>drop_bit\<close>.

  A finite Python float is a binary64 number, hence a rational. Every float operation
  returns the exact result rounded to the nearest binary64 number, ties to the even
  significand. \<open>fl\<close> is that rounding: for \<open>2 ^ e \<le> \<bar>x\<bar> < 2 ^ (e + 1)\<close> the
  neighbouring floats are the multiples of \<open>2 ^ (e - 52)\<close>. The exponent range is left
  unbounded: the driver only produces magnitudes between \<open>2 ^ -17\<close> and \<open>2 ^ 9\<close>, far
  from overflow and from the subnormal numbers.
\<close>

definition round_half_even :: "rat \<Rightarrow> int" where
  "round_half_even x =
     (let f = \<lfloor>x\<rfloor>; d = x - of_int f
      in if d < 1 / 2 then f else if 1 / 2 < d then f + 1 else if even f then f else f + 1)"

definition binexp :: "rat \<Rightarrow> int" where
  "binexp x =
     (let (a, b) = quotient_of \<bar>x\<bar>; k = bitlen a - bitlen b
      in if 2 powi k \<le> \<bar>x\<bar> then k else k - 1)"

definition fl :: "rat \<Rightarrow> rat" where
  "fl x =
     (if x = 0 then 0
      else let u = 2 powi (binexp x - 52) in of_int (round_half_even (x / u)) * u)"

text \<open>\<open>a / b\<close> on two Python integers (true division, correctly rounded).\<close>

definition int_truediv :: "int \<Rightarrow> int \<Rightarrow> rat" where
  "int_truediv a b = fl (of_int a / of_int b)"

definition float_mul :: "rat \<Rightarrow> rat \<Rightarrow> rat" where
  "float_mul x y = fl (x * y)"

definition float_add :: "rat \<Rightarrow> rat \<Rightarrow> rat" where
  "float_add x y = fl (x + y)"

text \<open>
  \<open>round(x, 3)\<close> on a float: CPython prints the exact value of \<open>x\<close> with three digits
  after the point, correctly rounded (an exact tie goes to the even digit), and reads the
  decimal back as the nearest float.
\<close>

definition py_round3 :: "rat \<Rightarrow> rat" where
  "py_round3 x = fl (of_int (round_half_even (x * 1000)) / 1000)"

section \<open>Checksum\<close>

text \<open>
  Modelled from the spec: the class \<open>Crc\<close> comes from the third-party package crccheck,
  which is not among the sources. \<open>crc_eval\<close> builds it as
  \<open>Crc(8, 0x31, initvalue=0xFF, reflect_input=False, xor_output=0x00)\<close>: a CRC-8 with
  polynomial 0x31, initial value 0xFF, no input reflection, no output reflection and no
  output XOR. \<open>process\<close> works on a Python integer register, most significant bit first:
  each byte is XORed into the register, eight shift steps test bit 7 (mask 0x80) and the
  register is cut back to eight bits (mask 0xFF) only after the eight steps.
\<close>

fun crc_shifts :: "nat \<Rightarrow> int \<Rightarrow> int" where
  "crc_shifts 0 crc = crc"
| "crc_shifts (Suc n) crc =
     crc_shifts n (if crc AND 0x80 \<noteq> 0 then push_bit 1 crc XOR 0x31 else push_bit 1 crc)"

fun crc_process :: "int \<Rightarrow> int list \<Rightarrow> int" where
  "crc_process crc [] = crc"
| "crc_process crc (byte # data) = crc_process (crc_shifts 8 (crc XOR byte) AND 0xFF) data"

definition crc_final :: "int \<Rightarrow> int" where
  "crc_final crc = crc XOR 0x00"

text \<open>The static method \<open>crc_eval(data, _crc)\<close> of the driver.\<close>

definition crc_eval :: "int list \<Rightarrow> int \<Rightarrow> bool" where
  "crc_eval data c =
     (let chk = crc_final (crc_process 0xFF data)
      in if chk = c then True else False)"

text \<open>
  The checksum engine in the words of the specification, on 8-bit words: \<open>checksum\<close> is
  the CRC-8 shift register for the polynomial 0x31 started at 0xFF, and \<open>verify\<close> compares
  it with the expected byte.
\<close>

definition crc8_shift :: "8 word \<Rightarrow> 8 word" where
  "crc8_shift r = (if bit r 7 then push_bit 1 r XOR 0x31 else push_bit 1 r)"

definition crc8_byte :: "8 word \<Rightarrow> 8 word \<Rightarrow> 8 word" where
  "crc8_byte r b = (crc8_shift ^^ 8) (r XOR b)"

definition checksum :: "8 word list \<Rightarrow> 8 word" where
  "checksum payload = foldl crc8_byte 0xFF payload"

definition verify :: "8 word list \<Rightarrow> 8 word \<Rightarrow> bool" where
  "verify payload expected = (checksum payload = expected)"

section \<open>The driver and the world around it\<close>

text \<open>
  The attributes of a \<open>TempHumiditySensor\<close> object, the class attributes \<open>IDX\<close> and
  \<open>LOGGING_PATH\<close>, and the world the driver talks to: \<open>bus_rx\<close> holds the answers the
  bus will give to the coming block reads, \<open>clock\<close> and \<open>ticks\<close> give the successive
  results of \<open>datetime.now().strftime(...)\<close>, and \<open>trace\<close> records every effect in the
  order it happens.
\<close>

datatype error = AttributeError | IndexError | IOError | UnboundLocalError | SystemExit

datatype event =
    BusWrite int int int
  | BusRead int int nat
  | Sleep rat
  | Print string
  | FileWrite string string string
  | SqlConnect string int string string
  | SqlQuery string

record sensor =
  i2cbus :: int
  addr :: int
  mode :: string
  rate :: rat
  accuracy :: string
  blocking :: bool
  Tready :: bool
  RHready :: bool
  T_degF :: rat
  T_degC :: rat
  RH :: rat
  IDX :: int
  LOGGING_PATH :: string
  bus_rx :: "int list list"
  clock :: "nat \<Rightarrow> string"
  ticks :: nat
  trace :: "event list"

definition emit :: "event \<Rightarrow> sensor \<Rightarrow> sensor" where
  "emit e s = s\<lparr>trace := trace s @ [e]\<rparr>"

definition print :: "string \<Rightarrow> sensor \<Rightarrow> sensor" where
  "print msg s = emit (Print msg) s"

definition sleep :: "rat \<Rightarrow> sensor \<Rightarrow> sensor" where
  "sleep d s = emit (Sleep d) s"

text \<open>\<open>self.bus.write_byte_data(self.addr, cmd[0], cmd[1])\<close> for a two-byte command.\<close>

definition write_byte_data :: "int list \<Rightarrow> sensor \<Rightarrow> sensor" where
  "write_byte_data cmd s = emit (BusWrite (addr s) (cmd ! 0) (cmd ! 1)) s"

text \<open>
  \<open>self.bus.read_i2c_block_data(self.addr, 0, n)\<close>: the next answer of the bus; a bus
  with no answer raises.
\<close>

definition read_i2c_block_data :: "nat \<Rightarrow> sensor \<Rightarrow> error + (int list \<times> sensor)" where
  "read_i2c_block_data n s =
     (case bus_rx s of
        [] \<Rightarrow> Inl IOError
      | d # rest \<Rightarrow> Inr (d, emit (BusRead (addr s) 0 n) (s\<lparr>bus_rx := rest\<rparr>)))"

subsection \<open>Command table\<close>

definition SINGLE_SHOT_CSOFF_HIGHR :: "int list" where "SINGLE_SHOT_CSOFF_HIGHR = [0x2C, 0x06]"
definition SINGLE_SHOT_CSOFF_MEDR :: "int list" where "SINGLE_SHOT_CSOFF_MEDR = [0x2C, 0x0D]"
definition SINGLE_SHOT_CSOFF_LOWR :: "int list" where "SINGLE_SHOT_CSOFF_LOWR = [0x2C, 0x10]"
definition SINGLE_SHOT_CSON_HIGHR :: "int list" where "SINGLE_SHOT_CSON_HIGHR = [0x24, 0x00]"
definition SINGLE_SHOT_CSON_MEDR :: "int list" where "SINGLE_SHOT_CSON_MEDR = [0x24, 0x0B]"
definition SINGLE_SHOT_CSON_LOWR :: "int list" where "SINGLE_SHOT_CSON_LOWR = [0x24, 0x16]"
definition PERIODIC_05MPS_HIGHR :: "int list" where "PERIODIC_05MPS_HIGHR = [0x20, 0x32]"
definition PERIODIC_05MPS_MEDR :: "int list" where "PERIODIC_05MPS_MEDR = [0x20, 0x24]"
definition PERIODIC_05MPS_LOWR :: "int list" where "PERIODIC_05MPS_LOWR = [0x20, 0x2F]"
definition PERIODIC_1MPS_HIGHR :: "int list" where "PERIODIC_1MPS_HIGHR = [0x21, 0x30]"
definition PERIODIC_1MPS_MEDR :: "int list" where "PERIODIC_1MPS_MEDR = [0x21, 0x26]"
definition PERIODIC_1MPS_LOWR :: "int list" where "PERIODIC_1MPS_LOWR = [0x21, 0x2D]"
definition PERIODIC_2MPS_HIGHR :: "int list" where "PERIODIC_2MPS_HIGHR = [0x22, 0x36]"
definition PERIODIC_2MPS_MEDR :: "int list" where "PERIODIC_2MPS_MEDR = [0x22, 0x20]"
definition PERIODIC_2MPS_LOWR :: "int list" where "PERIODIC_2MPS_LOWR = [0x22, 0x2B]"
definition PERIODIC_4MPS_HIGHR :: "int list" where "PERIODIC_4MPS_HIGHR = [0x23, 0x34]"
definition PERIODIC_4MPS_MEDR :: "int list" where "PERIODIC_4MPS_MEDR = [0x23, 0x22]"
definition PERIODIC_4MPS_LOWR :: "int list" where "PERIODIC_4MPS_LOWR = [0x23, 0x29]"
definition PERIODIC_10MPS_HIGHR :: "int list" where "PERIODIC_10MPS_HIGHR = [0x27, 0x37]"
definition PERIODIC_10MPS_MEDR :: "int list" where "PERIODIC_10MPS_MEDR = [0x27, 0x21]"
definition PERIODIC_10MPS_LOWR :: "int list" where "PERIODIC_10MPS_LOWR = [0x27, 0x2A]"
definition FETCH_DATA :: "int list" where "FETCH_DATA = [0xE0, 0x00]"
definition STATUS :: "int list" where "STATUS = [0xF3, 0x2D]"
definition CLEAR_STATUS :: "int list" where "CLEAR_STATUS = [0x30, 0x41]"

subsection \<open>Construction and configuration\<close>

text \<open>
  \<open>__init__\<close>: the attribute values of a new driver. The class attributes and the world
  are those of \<open>w\<close>.
\<close>

definition init :: "int \<Rightarrow> int \<Rightarrow> sensor \<Rightarrow> sensor" where
  "init bus a w =
     w\<lparr>i2cbus := bus, addr := a, mode := ''single-shot'', rate := 1, accuracy := ''med'',
       blocking := True, Tready := False, RHready := False,
       T_degF := 0, T_degC := 0, RH := 0\<rparr>"

definition dq :: string where
  "dq = [CHR 0x22]"

definition msg_rate_ignored :: string where
  "msg_rate_ignored = ''INFO: Sample rate argument will be ignored in single-shot measurement mode''"

definition msg_bad_accuracy :: string where
  "msg_bad_accuracy =
     ''WARNING: Invalid accuracy parameter supplied. Valid options are '' @ dq @ ''low'' @ dq @
     '', '' @ dq @ ''med'' @ dq @ '' or '' @ dq @ ''high'' @ dq @ ''.'' @
     ''Using default value of '' @ dq @ ''med'' @ dq"

definition msg_rate_default :: string where
  "msg_rate_default = ''INFO: Sample rate argument not supplied; using default value of 1''"

definition msg_bad_rate :: string where
  "msg_bad_rate =
     ''WARNING: Invalid sample rate argument supplied. Valid options are 0.5, 1, 2, 4 and 10. '' @
     ''Using default value of 1.''"

definition msg_no_blocking :: string where
  "msg_no_blocking = ''WARNING: Blocking is not available for periodic sampling mode.''"

text \<open>
  \<open>set_mode(mode, rate=None, acc="med", blocking=False)\<close>. An invalid mode ends the
  program through \<open>sys.exit\<close>.
\<close>

definition set_accuracy :: "string \<Rightarrow> sensor \<Rightarrow> sensor" where
  "set_accuracy acc s =
     (if acc \<noteq> ''med'' \<and> acc \<noteq> ''low'' \<and> acc \<noteq> ''high''
      then (print msg_bad_accuracy s)\<lparr>accuracy := ''med''\<rparr>
      else s\<lparr>accuracy := acc\<rparr>)"

definition set_mode :: "string \<Rightarrow> rat option \<Rightarrow> string \<Rightarrow> bool \<Rightarrow> sensor \<Rightarrow> error + sensor" where
  "set_mode m r acc blk s =
     (if m = ''single-shot'' then
        let s1 = s\<lparr>mode := ''single-shot''\<rparr>;
            s2 = (if r \<noteq> None then print msg_rate_ignored s1 else s1);
            s3 = set_accuracy acc s2
        in Inr (s3\<lparr>blocking := blk\<rparr>)
      else if m = ''periodic'' then
        let s1 = s\<lparr>mode := ''periodic''\<rparr>;
            s2 = (case r of
                    None \<Rightarrow> (print msg_rate_default s1)\<lparr>rate := 1\<rparr>
                  | Some x \<Rightarrow>
                      if x \<noteq> 1 / 2 \<and> x \<noteq> 1 \<and> x \<noteq> 2 \<and> x \<noteq> 4 \<and> x \<noteq> 10
                      then (print msg_bad_rate s1)\<lparr>rate := 1\<rparr>
                      else s1\<lparr>rate := x\<rparr>);
            s3 = set_accuracy acc s2
        in Inr (if blk = True then (print msg_no_blocking s3)\<lparr>blocking := False\<rparr> else s3)
      else Inl SystemExit)"

subsection \<open>Frames\<close>

text \<open>
  The three conversions are written inline in \<open>process_data\<close>:
  \<open>round(-49 + 315.0 * (s_t / (2 ** 16 - 1)), 3)\<close>,
  \<open>round(-45 + 175.0 * (s_t / (2 ** 16 - 1)), 3)\<close> and
  \<open>round(100.0*(s_rh/(2**16-1)), 3)\<close>.
\<close>

definition conv_T_degF :: "int \<Rightarrow> rat" where
  "conv_T_degF s_t = py_round3 (float_add (- 49) (float_mul 315 (int_truediv s_t (2 ^ 16 - 1))))"

definition conv_T_degC :: "int \<Rightarrow> rat" where
  "conv_T_degC s_t = py_round3 (float_add (- 45) (float_mul 175 (int_truediv s_t (2 ^ 16 - 1))))"

definition conv_RH :: "int \<Rightarrow> rat" where
  "conv_RH s_rh = py_round3 (float_mul 100 (int_truediv s_rh (2 ^ 16 - 1)))"

text \<open>
  The conversions in the words of the specification, on exact rationals: the three
  formulas, and rounding to three decimal places (to the nearest multiple of 1/1000).
\<close>

definition raw_to_temp_c :: "int \<Rightarrow> rat" where
  "raw_to_temp_c code = - 45 + 175 * of_int code / 65535"

definition raw_to_temp_f :: "int \<Rightarrow> rat" where
  "raw_to_temp_f code = - 49 + 315 * of_int code / 65535"

definition raw_to_rh :: "int \<Rightarrow> rat" where
  "raw_to_rh code = 100 * of_int code / 65535"

definition round3 :: "rat \<Rightarrow> rat" where
  "round3 x = of_int (round_half_even (x * 1000)) / 1000"

definition msg_temp_chk :: string where
  "msg_temp_chk = ''WARNING: Checksum failed on temperature value reported by sensor!''"

definition msg_rh_chk :: string where
  "msg_rh_chk = ''WARNING: Checksum failed on humidity value reported by sensor!''"

text \<open>
  \<open>process_data(data)\<close> returns the two flags \<open>[ret1, ret2]\<close>. Both checksums are taken
  first, so a frame shorter than six bytes raises before anything is changed.
\<close>

definition process_data :: "int list \<Rightarrow> sensor \<Rightarrow> error + (bool list \<times> sensor)" where
  "process_data data s =
     (if length data < 6 then Inl IndexError
      else
        let temp_chk = crc_eval [data ! 0, data ! 1] (data ! 2);
            rh_chk = crc_eval [data ! 3, data ! 4] (data ! 5);
            (ret1, s1) =
              (if temp_chk = False then (False, print msg_temp_chk s)
               else
                 let s_t = push_bit 8 (data ! 0) OR data ! 1
                 in (True, s\<lparr>T_degF := conv_T_degF s_t, T_degC := conv_T_degC s_t\<rparr>));
            (ret2, s2) =
              (if rh_chk = False then (False, print msg_rh_chk s1)
               else
                 let s_rh = push_bit 8 (data ! 3) OR data ! 4
                 in (True, s1\<lparr>RH := conv_RH s_rh\<rparr>))
        in Inr ([ret1, ret2], s2))"

text \<open>
  \<open>fetch_data\<close>. With a mode that is neither of the two strings the local \<open>data\<close> is
  never bound.
\<close>

definition fetch_data :: "sensor \<Rightarrow> error + sensor" where
  "fetch_data s =
     (let s1 = sleep (1 / 20) s;
          r = (if mode s1 = ''single-shot'' then read_i2c_block_data 6 s1
               else if mode s1 = ''periodic''
               then read_i2c_block_data 6 (sleep (1 / 10) (write_byte_data FETCH_DATA s1))
               else Inl UnboundLocalError)
      in case r of
           Inl e \<Rightarrow> Inl e
         | Inr (data, s2) \<Rightarrow>
             (case process_data data s2 of
                Inl e \<Rightarrow> Inl e
              | Inr (ret, s3) \<Rightarrow> Inr (s3\<lparr>Tready := ret ! 0, RHready := ret ! 1\<rparr>)))"

definition isready :: "sensor \<Rightarrow> bool" where
  "isready s = (if Tready s = True \<and> RHready s = True then True else False)"

text \<open>\<open>get_sample(degf=True)\<close> returns a list of two entries, \<open>None\<close> or a float each.\<close>

definition take_sample :: "bool \<Rightarrow> sensor \<Rightarrow> rat option list \<times> sensor" where
  "take_sample degf s =
     (let s1 = s\<lparr>Tready := False, RHready := False\<rparr>
      in ([Some (if degf = True then T_degF s1 else T_degC s1), Some (RH s1)], s1))"

definition get_sample :: "bool \<Rightarrow> sensor \<Rightarrow> error + (rat option list \<times> sensor)" where
  "get_sample degf s =
     (if Tready s = True \<and> RHready s = True then Inr (take_sample degf s)
      else
        case fetch_data s of
          Inl e \<Rightarrow> Inl e
        | Inr s1 \<Rightarrow>
            if Tready s1 = True \<and> RHready s1 = True then Inr (take_sample degf s1)
            else Inr ([None, None], s1))"

subsection \<open>Starting an acquisition\<close>

text \<open>
  \<open>init_read\<close>. The branch for periodic mode, high accuracy and rate 0.5 reads the
  class attribute \<open>PERIODIC_05_MPS_HIGHR\<close>; the class defines \<open>PERIODIC_05MPS_HIGHR\<close>
  only, so evaluating the first argument of the bus write raises AttributeError and
  nothing is written.
\<close>

definition init_read :: "sensor \<Rightarrow> error + sensor" where
  "init_read s =
     (if mode s = ''single-shot'' then
        (if accuracy s = ''high'' then
           (if blocking s = True then fetch_data (write_byte_data SINGLE_SHOT_CSON_HIGHR s)
            else Inr (write_byte_data SINGLE_SHOT_CSOFF_HIGHR s))
         else if accuracy s = ''med'' then
           (if blocking s = True then fetch_data (write_byte_data SINGLE_SHOT_CSON_MEDR s)
            else Inr (write_byte_data SINGLE_SHOT_CSOFF_MEDR s))
         else if accuracy s = ''low'' then
           (if blocking s = True then fetch_data (write_byte_data SINGLE_SHOT_CSON_LOWR s)
            else Inr (write_byte_data SINGLE_SHOT_CSOFF_LOWR s))
         else Inr s)
      else if mode s = ''periodic'' then
        (if accuracy s = ''high'' then
           (if rate s = 1 / 2 then Inl AttributeError
            else if rate s = 1 then Inr (write_byte_data PERIODIC_1MPS_HIGHR s)
            else if rate s = 2 then Inr (write_byte_data PERIODIC_2MPS_HIGHR s)
            else if rate s = 4 then Inr (write_byte_data PERIODIC_4MPS_HIGHR s)
            else if rate s = 10 then Inr (write_byte_data PERIODIC_10MPS_HIGHR s)
            else Inr s)
         else if accuracy s = ''med'' then
           (if rate s = 1 / 2 then Inr (write_byte_data PERIODIC_05MPS_MEDR s)
            else if rate s = 1 then Inr (write_byte_data PERIODIC_1MPS_MEDR s)
            else if rate s = 2 then Inr (write_byte_data PERIODIC_2MPS_MEDR s)
            else if rate s = 4 then Inr (write_byte_data PERIODIC_4MPS_MEDR s)
            else if rate s = 10 then Inr (write_byte_data PERIODIC_10MPS_MEDR s)
            else Inr s)
         else if accuracy s = ''low'' then
           (if rate s = 1 / 2 then Inr (write_byte_data PERIODIC_05MPS_LOWR s)
            else if rate s = 1 then Inr (write_byte_data PERIODIC_1MPS_LOWR s)
            else if rate s = 2 then Inr (write_byte_data PERIODIC_2MPS_LOWR s)
            else if rate s = 4 then Inr (write_byte_data PERIODIC_4MPS_LOWR s)
            else if rate s = 10 then Inr (write_byte_data PERIODIC_10MPS_LOWR s)
            else Inr s)
         else Inr s)
      else Inr s)"

text \<open>
  The command table of the class for periodic mode, as the attribute definitions give it
  (accuracy, then rate).
\<close>

definition periodic_command :: "string \<Rightarrow> rat \<Rightarrow> int list" where
  "periodic_command acc r =
     (if acc = ''high'' then
        (if r = 1 / 2 then PERIODIC_05MPS_HIGHR else if r = 1 then PERIODIC_1MPS_HIGHR
         else if r = 2 then PERIODIC_2MPS_HIGHR else if r = 4 then PERIODIC_4MPS_HIGHR
         else PERIODIC_10MPS_HIGHR)
      else if acc = ''med'' then
        (if r = 1 / 2 then PERIODIC_05MPS_MEDR else if r = 1 then PERIODIC_1MPS_MEDR
         else if r = 2 then PERIODIC_2MPS_MEDR else if r = 4 then PERIODIC_4MPS_MEDR
         else PERIODIC_10MPS_MEDR)
      else
        (if r = 1 / 2 then PERIODIC_05MPS_LOWR else if r = 1 then PERIODIC_1MPS_LOWR
         else if r = 2 then PERIODIC_2MPS_LOWR else if r = 4 then PERIODIC_4MPS_LOWR
         else PERIODIC_10MPS_LOWR))"

subsection \<open>Status register\<close>

definition msg_status_chk :: string where
  "msg_status_chk = ''WARNING: Checksum failed on status register''"

definition get_status_byte :: "sensor \<Rightarrow> error + (int \<times> sensor)" where
  "get_status_byte s =
     (case read_i2c_block_data 3 (sleep (1 / 20) (write_byte_data STATUS s)) of
        Inl e \<Rightarrow> Inl e
      | Inr (data, s1) \<Rightarrow>
          if length data < 3 then Inl IndexError
          else if crc_eval [data ! 0, data ! 1] (data ! 2) = True
          then Inr (push_bit 8 (data ! 0) OR data ! 1, s1)
          else Inr (0xFFFF, s1))"

definition alert_status :: "sensor \<Rightarrow> error + (bool \<times> sensor)" where
  "alert_status s =
     (case get_status_byte s of
        Inl e \<Rightarrow> Inl e
      | Inr (status_byte, s1) \<Rightarrow>
          if status_byte \<noteq> 0xFFFF then
            let status_bit = drop_bit 15 (status_byte AND 0x8000)
            in if status_bit = 1 then Inr (True, print ''Alert pending!'' s1)
               else Inr (False, s1)
          else Inr (False, print msg_status_chk s1))"

definition get_alert :: "sensor \<Rightarrow> error + (string list \<times> sensor)" where
  "get_alert s =
     (let ret = replicate 3 ''null''
      in case get_status_byte s of
           Inl e \<Rightarrow> Inl e
         | Inr (status_byte, s1) \<Rightarrow>
             if status_byte \<noteq> 0xFFFF then
               let talert = drop_bit 10 (status_byte AND 0x200);
                   rhalert = drop_bit 11 (status_byte AND 0x400);
                   resetalert = drop_bit 4 (status_byte AND 0x08);
                   (ret1, s2) =
                     (if talert = 1
                      then (ret[0 := ''temp_alert''], print ''Temperature tracking alert!'' s1)
                      else (ret, s1));
                   (ret2, s3) =
                     (if rhalert = 1
                      then (ret1[1 := ''rh_alert''], print ''Humidity tracking alert!'' s2)
                      else (ret1, s2));
                   (ret3, s4) =
                     (if resetalert = 1
                      then (ret2[2 := ''reset_alert''], print ''System reset detected'' s3)
                      else (ret2, s3))
               in Inr (ret3, sleep (1 / 20) (write_byte_data CLEAR_STATUS s4))
             else Inr (ret, print msg_status_chk s1))"

definition command_status :: "sensor \<Rightarrow> error + (bool \<times> sensor)" where
  "command_status s =
     (case get_status_byte s of
        Inl e \<Rightarrow> Inl e
      | Inr (status_byte, s1) \<Rightarrow>
          if status_byte \<noteq> 0xFFFF then
            let cmd = drop_bit 1 (status_byte AND 0x02)
            in if cmd = 0
               then Inr (True, print ''Last command to sensor completed successfully'' s1)
               else Inr (False, print ''Last command to sensor did not complete'' s1)
          else Inr (False, print msg_status_chk s1))"

definition chksum_status :: "sensor \<Rightarrow> error + (bool \<times> sensor)" where
  "chksum_status s =
     (case get_status_byte s of
        Inl e \<Rightarrow> Inl e
      | Inr (status_byte, s1) \<Rightarrow>
          if status_byte \<noteq> 0xFFFF then
            let chk = status_byte AND 0x01
            in if chk = 0 then Inr (True, print ''Write data checksum was correct'' s1)
               else Inr (False, print ''Write data checksum failed'' s1)
          else Inr (False, print msg_status_chk s1))"

definition get_heater_status :: "sensor \<Rightarrow> error + (bool \<times> sensor)" where
  "get_heater_status s =
     (case get_status_byte s of
        Inl e \<Rightarrow> Inl e
      | Inr (status_byte, s1) \<Rightarrow>
          if status_byte \<noteq> 0xFFFF then
            let heater = drop_bit 13 (status_byte AND 0x2000)
            in if heater = 1 then Inr (True, print ''Heater is ON'' s1)
               else Inr (False, print ''Heater is OFF'' s1)
          else Inr (False, print msg_status_chk s1))"

subsection \<open>Logging loops\<close>

text \<open>
  \<open>str(x)\<close> of a float is a parameter \<open>str_float\<close> of the loops; \<open>str(None)\<close> is
  \<open>None\<close>. The file and the database are outside the driver: a write and a query are
  recorded in the trace.
\<close>

definition str_opt :: "(rat \<Rightarrow> string) \<Rightarrow> rat option \<Rightarrow> string" where
  "str_opt str_float v = (case v of None \<Rightarrow> ''None'' | Some x \<Rightarrow> str_float x)"

definition now :: "sensor \<Rightarrow> string \<times> sensor" where
  "now s = (clock s (ticks s), s\<lparr>ticks := Suc (ticks s)\<rparr>)"

definition sq :: string where
  "sq = [CHR 0x27]"

definition line_of :: "(rat \<Rightarrow> string) \<Rightarrow> string \<Rightarrow> rat option \<Rightarrow> rat option \<Rightarrow> string" where
  "line_of str_float dtime temp rh =
     dtime @ '','' @ str_opt str_float temp @ '','' @ str_opt str_float rh @ [CHR 0x0A]"

text \<open>The body of the \<open>while True\<close> loop of \<open>start_logging_file\<close>.\<close>

definition logging_file_body :: "(rat \<Rightarrow> string) \<Rightarrow> sensor \<Rightarrow> error + sensor" where
  "logging_file_body str_float s =
     (case get_sample True s of
        Inl e \<Rightarrow> Inl e
      | Inr (sample, s1) \<Rightarrow>
          let temp = sample ! 0; rh = sample ! 1;
              (dtime, s2) = now s1
          in Inr (emit (FileWrite (LOGGING_PATH s2) ''a'' (line_of str_float dtime temp rh)) s2))"

text \<open>The body of the \<open>while True\<close> loop of \<open>start_logging_sql\<close>.\<close>

definition logging_sql_body ::
  "(rat \<Rightarrow> string) \<Rightarrow> string \<Rightarrow> rat \<Rightarrow> sensor \<Rightarrow> error + sensor" where
  "logging_sql_body str_float tb log_interval s =
     (case get_sample True s of
        Inl e \<Rightarrow> Inl e
      | Inr (sample, s1) \<Rightarrow>
          let temp = sample ! 0; rh = sample ! 1;
              (dtime, s2) = now s1;
              s3 = emit (FileWrite (LOGGING_PATH s2) ''w'' (line_of str_float dtime temp rh)) s2;
              query_str = ''INSERT INTO '' @ tb @ '' (time, temp, rh) VALUES ('' @ sq @ dtime @ sq @
                '','' @ str_opt str_float temp @ '','' @ str_opt str_float rh @ '')''
          in Inr (sleep log_interval (emit (SqlQuery query_str) s3)))"

text \<open>
  Both loops have no exit. \<open>iterate n body\<close> runs the first \<open>n\<close> rounds of
  \<open>while True: body\<close>, stopping at the first exception.
\<close>

fun iterate :: "nat \<Rightarrow> (sensor \<Rightarrow> error + sensor) \<Rightarrow> sensor \<Rightarrow> error + sensor" where
  "iterate 0 body s = Inr s"
| "iterate (Suc n) body s = (case body s of Inl e \<Rightarrow> Inl e | Inr s1 \<Rightarrow> iterate n body s1)"

definition first_init_read :: "sensor \<Rightarrow> error + sensor" where
  "first_init_read s =
     (if IDX s = 0
      then (case init_read s of Inl e \<Rightarrow> Inl e | Inr s1 \<Rightarrow> Inr (s1\<lparr>IDX := IDX s1 + 1\<rparr>))
      else Inr s)"

definition ensure_periodic :: "sensor \<Rightarrow> error + sensor" where
  "ensure_periodic s =
     (if mode s \<noteq> ''periodic'' then set_mode ''periodic'' (Some 1) ''med'' False s else Inr s)"

text \<open>\<open>start_logging_file\<close>, cut after \<open>n\<close> rounds of its loop.\<close>

definition start_logging_file :: "(rat \<Rightarrow> string) \<Rightarrow> nat \<Rightarrow> sensor \<Rightarrow> error + sensor" where
  "start_logging_file str_float n s =
     (case ensure_periodic s of
        Inl e \<Rightarrow> Inl e
      | Inr s1 \<Rightarrow>
          (case first_init_read (print ''Logging to file started!'' s1) of
             Inl e \<Rightarrow> Inl e
           | Inr s2 \<Rightarrow> iterate n (logging_file_body str_float) s2))"

text \<open>\<open>start_logging_sql(host, port, db, tb, log_interval)\<close>, cut after \<open>n\<close> rounds.\<close>

definition start_logging_sql ::
  "(rat \<Rightarrow> string) \<Rightarrow> string \<Rightarrow> int \<Rightarrow> string \<Rightarrow> string \<Rightarrow> rat \<Rightarrow> nat \<Rightarrow> sensor \<Rightarrow> error + sensor" where
  "start_logging_sql str_float host port db tb log_interval n s =
     (case ensure_periodic
             (print ''Logging to SQL database started!'' (emit (SqlConnect host port db tb) s)) of
        Inl e \<Rightarrow> Inl e
      | Inr s1 \<Rightarrow>
          (case first_init_read s1 of
             Inl e \<Rightarrow> Inl e
           | Inr s2 \<Rightarrow> iterate n (logging_sql_body str_float tb log_interval) s2))"

subsection \<open>Observations and example states\<close>

text \<open>The number of six-byte block reads in the trace: one for every fetch.\<close>

definition fetches :: "sensor \<Rightarrow> nat" where
  "fetches s =
     length (filter (\<lambda>e. case e of BusRead a c n \<Rightarrow> n = 6 | _ \<Rightarrow> False) (trace s))"

text \<open>
  A world with a silent bus and an empty trace, the driver that
  \<open>TempHumiditySensor(1, 0x44)\<close> builds in it, and two frames for the raw code 0x6666:
  one with both checksums right, one with the temperature checksum wrong, one with the
  humidity checksum wrong.
\<close>

definition blank :: sensor where
  "blank = \<lparr>i2cbus = 0, addr = 0, mode = [], rate = 0, accuracy = [], blocking = False,
     Tready = False, RHready = False, T_degF = 0, T_degC = 0, RH = 0, IDX = 0,
     LOGGING_PATH = [], bus_rx = [], clock = (\<lambda>n. []), ticks = 0, trace = []\<rparr>"

definition driver0 :: sensor where
  "driver0 = init 1 0x44 blank"

definition frame_ok :: "int list" where
  "frame_ok = [0x66, 0x66, 0x93, 0x66, 0x66, 0x93]"

definition frame_rh_only :: "int list" where
  "frame_rh_only = [0x66, 0x66, 0x00, 0x66, 0x66, 0x93]"

definition frame_t_only :: "int list" where
  "frame_t_only = [0x66, 0x66, 0x93, 0x66, 0x66, 0x00]"

text \<open>A driver in periodic mode with a sample ready, a log file and a clock.\<close>

definition logger0 :: sensor where
  "logger0 = driver0\<lparr>mode := ''periodic'', Tready := True, RHready := True,
     T_degF := 77, T_degC := 25, RH := 40, LOGGING_PATH := ''log.csv'',
     clock := (\<lambda>n. ''2026-01-01 00:00:00'')\<rparr>"

section \<open>Properties\<close>

lemmas command_defs =
  SINGLE_SHOT_CSOFF_HIGHR_def SINGLE_SHOT_CSOFF_MEDR_def SINGLE_SHOT_CSOFF_LOWR_def
  SINGLE_SHOT_CSON_HIGHR_def SINGLE_SHOT_CSON_MEDR_def SINGLE_SHOT_CSON_LOWR_def
  PERIODIC_05MPS_HIGHR_def PERIODIC_05MPS_MEDR_def PERIODIC_05MPS_LOWR_def
  PERIODIC_1MPS_HIGHR_def PERIODIC_1MPS_MEDR_def PERIODIC_1MPS_LOWR_def
  PERIODIC_2MPS_HIGHR_def PERIODIC_2MPS_MEDR_def PERIODIC_2MPS_LOWR_def
  PERIODIC_4MPS_HIGHR_def PERIODIC_4MPS_MEDR_def PERIODIC_4MPS_LOWR_def
  PERIODIC_10MPS_HIGHR_def PERIODIC_10MPS_MEDR_def PERIODIC_10MPS_LOWR_def
  FETCH_DATA_def STATUS_def CLEAR_STATUS_def

subsection \<open>Starting a periodic acquisition\<close>

lemma init_read_periodic_table:
  assumes "mode s = ''periodic''"
    and "accuracy s = ''high'' \<or> accuracy s = ''med'' \<or> accuracy s = ''low''"
    and "rate s = 1 / 2 \<or> rate s = 1 \<or> rate s = 2 \<or> rate s = 4 \<or> rate s = 10"
    and "\<not> (accuracy s = ''high'' \<and> rate s = 1 / 2)"
  shows "init_read s = Inr (write_byte_data (periodic_command (accuracy s) (rate s)) s)"
  using assms by (auto simp add: init_read_def periodic_command_def)

text \<open>
  Claim C1. Every valid periodic configuration should make \<open>init_read\<close> write the command
  of the table, high accuracy at rate 0.5 sending \<open>[0x20, 0x32]\<close>. Fourteen of the fifteen
  pairs do (\<open>init_read_periodic_table\<close>). For high accuracy at rate 0.5, which
  \<open>set_mode\<close> accepts as given, \<open>init_read\<close> raises AttributeError before anything
  is written, from any driver state.
\<close>

theorem init_read_periodic_high_half_raises:
  "set_mode ''periodic'' (Some (1 / 2)) ''high'' False s
     = Inr (s\<lparr>mode := ''periodic'', rate := 1 / 2, accuracy := ''high''\<rparr>)
   \<and> init_read (s\<lparr>mode := ''periodic'', rate := 1 / 2, accuracy := ''high''\<rparr>)
     = Inl AttributeError"
  by (simp add: set_mode_def set_accuracy_def init_read_def)

subsection \<open>Blocking under periodic mode\<close>

lemma set_mode_periodic_blocking:
  "set_mode ''periodic'' r acc blk s = Inr s' \<Longrightarrow>
     blocking s' = (if blk then False else blocking s)"
  by (auto simp add: set_mode_def set_accuracy_def print_def emit_def Let_def
      split: option.splits if_splits)

text \<open>
  Claim C7. After \<open>set_mode\<close> with mode periodic the blocking attribute should be false
  whatever it was before. The periodic branch assigns the attribute only when the
  argument is true (\<open>set_mode_periodic_blocking\<close>): a driver fresh from \<open>__init__\<close>,
  where blocking is true, configured with \<open>set_mode("periodic", rate=1, acc="med")\<close>
  is in periodic mode with blocking still true.
\<close>

theorem set_mode_periodic_keeps_blocking:
  "set_mode ''periodic'' (Some 1) ''med'' False (init 1 0x44 w)
     = Inr ((init 1 0x44 w)\<lparr>mode := ''periodic'', rate := 1, accuracy := ''med''\<rparr>)
   \<and> blocking ((init 1 0x44 w)\<lparr>mode := ''periodic'', rate := 1, accuracy := ''med''\<rparr>) = True"
  by (simp add: set_mode_def set_accuracy_def init_def)

subsection \<open>Alerts\<close>

lemma drop_bit_and_small:
  fixes x :: int
  assumes "m < 2 ^ n" and "0 \<le> m"
  shows "drop_bit n (x AND m) = 0"
proof -
  have "0 \<le> x AND m"
    using assms by simp
  moreover have "x AND m \<le> m"
    using assms by simp
  ultimately show ?thesis
    using assms by (simp add: drop_bit_eq_div)
qed

text \<open>Each of the three masks of \<open>get_alert\<close> lies below its shift, so no alert is ever reported.\<close>

lemma get_alert_null:
  "get_alert s = Inr (ret, s') \<Longrightarrow> ret = [''null'', ''null'', ''null'']"
  by (auto simp add: get_alert_def Let_def drop_bit_and_small eval_nat_numeral
      split: sum.splits if_splits prod.splits)

text \<open>
  Claim C2. \<open>get_alert\<close> should return the temperature alert when bit 10 of the status is
  set, the humidity alert for bit 11 and the reset alert for bit 4. The status 0x0C10 has
  the three bits set and arrives with a valid checksum; \<open>get_alert\<close> returns no alert
  at all, and sends ClearStatus.
\<close>

theorem get_alert_misses_alerts:
  "get_alert (blank\<lparr>bus_rx := [[0x0C, 0x10, 0x76]]\<rparr>)
     = Inr ([''null'', ''null'', ''null''],
         blank\<lparr>bus_rx := [],
           trace := [BusWrite 0 0xF3 0x2D, Sleep (1 / 20), BusRead 0 0 3,
             BusWrite 0 0x30 0x41, Sleep (1 / 20)]\<rparr>)"
  by (simp add: get_alert_def get_status_byte_def read_i2c_block_data_def sleep_def
      write_byte_data_def emit_def blank_def crc_eval_def crc_final_def command_defs
      eval_nat_numeral Let_def drop_bit_and_small)

subsection \<open>Frames and samples\<close>

lemma example_checksums:
  "crc_eval [0x66, 0x66] 0x93 = True" "crc_eval [0x66, 0x66] 0x00 = False"
  "crc_eval [0x80, 0x10] 0x00 = False" "crc_eval [0xFF, 0xFF] 0xAC = True"
  by (simp_all add: crc_eval_def crc_final_def eval_nat_numeral)

lemma example_conversions:
  "conv_T_degF 0x6666 = 77" "conv_T_degC 0x6666 = 25" "conv_RH 0x6666 = 40"
  by code_simp+

lemma process_data_frame:
  "process_data [d0, d1, d2, d3, d4, d5] s =
     Inr ([crc_eval [d0, d1] d2, crc_eval [d3, d4] d5],
          (if crc_eval [d3, d4] d5 then (\<lambda>t. t\<lparr>RH := conv_RH (push_bit 8 d3 OR d4)\<rparr>)
           else print msg_rh_chk)
            ((if crc_eval [d0, d1] d2
              then (\<lambda>t. t\<lparr>T_degF := conv_T_degF (push_bit 8 d0 OR d1),
                           T_degC := conv_T_degC (push_bit 8 d0 OR d1)\<rparr>)
              else print msg_temp_chk) s))"
  by (simp add: process_data_def Let_def eval_nat_numeral)

lemma fetch_data_fetches:
  "fetch_data s = Inr s' \<Longrightarrow> fetches s' = Suc (fetches s)"
  by (auto simp add: fetch_data_def read_i2c_block_data_def process_data_def sleep_def
      write_byte_data_def print_def emit_def fetches_def Let_def
      split: if_splits list.splits sum.splits prod.splits)

text \<open>
  Claim C3. A fetch that receives a six-byte frame validates and updates each channel on
  its own checksum alone: the ready flag of a channel is the result of its check, a
  channel that passes gets its converted value, a channel that fails keeps its previous
  value. For a frame whose temperature checksum fails and whose humidity checksum passes
  this gives: \<open>RH\<close> is the new converted value and \<open>RHready\<close> is true, \<open>T_degC\<close> and
  \<open>T_degF\<close> are unchanged and \<open>Tready\<close> is false.
\<close>

theorem fetch_data_channels:
  assumes "bus_rx s = [d0, d1, d2, d3, d4, d5] # rest"
    and "mode s = ''single-shot'' \<or> mode s = ''periodic''"
  shows "\<exists>s'. fetch_data s = Inr s'
     \<and> Tready s' = crc_eval [d0, d1] d2
     \<and> RHready s' = crc_eval [d3, d4] d5
     \<and> T_degF s' = (if crc_eval [d0, d1] d2 then conv_T_degF (push_bit 8 d0 OR d1) else T_degF s)
     \<and> T_degC s' = (if crc_eval [d0, d1] d2 then conv_T_degC (push_bit 8 d0 OR d1) else T_degC s)
     \<and> RH s' = (if crc_eval [d3, d4] d5 then conv_RH (push_bit 8 d3 OR d4) else RH s)"
  using assms
  by (auto simp add: fetch_data_def read_i2c_block_data_def process_data_frame sleep_def
      write_byte_data_def print_def emit_def Let_def)

theorem fetch_data_channels_witness:
  "bus_rx (driver0\<lparr>T_degF := 50, T_degC := 10, RH := 20, bus_rx := [frame_rh_only]\<rparr>)
     = [0x66, 0x66, 0x00, 0x66, 0x66, 0x93] # []
   \<and> mode (driver0\<lparr>T_degF := 50, T_degC := 10, RH := 20, bus_rx := [frame_rh_only]\<rparr>)
     = ''single-shot''
   \<and> (\<exists>s'. fetch_data (driver0\<lparr>T_degF := 50, T_degC := 10, RH := 20, bus_rx := [frame_rh_only]\<rparr>)
          = Inr s'
        \<and> Tready s' = False \<and> RHready s' = True
        \<and> T_degF s' = 50 \<and> T_degC s' = 10 \<and> RH s' = 40)"
proof -
  let ?s = "driver0\<lparr>T_degF := 50, T_degC := 10, RH := 20, bus_rx := [frame_rh_only]\<rparr>"
  have rx: "bus_rx ?s = [0x66, 0x66, 0x00, 0x66, 0x66, 0x93] # []"
    by (simp add: frame_rh_only_def)
  have md: "mode ?s = ''single-shot''"
    by (simp add: driver0_def init_def)
  have code: "push_bit 8 (0x66 :: int) OR 0x66 = 0x6666"
    by simp
  from fetch_data_channels [OF rx disjI1 [OF md]] md rx show ?thesis
    by (simp add: example_checksums example_conversions code)
qed

text \<open>
  Claim C6. \<open>get_sample\<close> is a single retry. With both flags set it clears them and
  returns the temperature in the preferred unit and the humidity, without a fetch.
  Otherwise it fetches once and looks at the flags once more: with both set it clears
  them and returns the values, else it returns \<open>[None, None]\<close> in the state the fetch
  left. A call that returns has made no fetch in the first case and exactly one in the
  second.
\<close>

theorem get_sample_single_retry:
  "get_sample degf s =
     (if Tready s \<and> RHready s
      then Inr ([Some (if degf then T_degF s else T_degC s), Some (RH s)],
                s\<lparr>Tready := False, RHready := False\<rparr>)
      else case fetch_data s of
             Inl e \<Rightarrow> Inl e
           | Inr s1 \<Rightarrow>
               if Tready s1 \<and> RHready s1
               then Inr ([Some (if degf then T_degF s1 else T_degC s1), Some (RH s1)],
                         s1\<lparr>Tready := False, RHready := False\<rparr>)
               else Inr ([None, None], s1))
   \<and> (case get_sample degf s of
        Inl e \<Rightarrow> True
      | Inr (ret, s') \<Rightarrow>
          fetches s' = (if Tready s \<and> RHready s then fetches s else Suc (fetches s)))"
proof
  show "get_sample degf s =
     (if Tready s \<and> RHready s
      then Inr ([Some (if degf then T_degF s else T_degC s), Some (RH s)],
                s\<lparr>Tready := False, RHready := False\<rparr>)
      else case fetch_data s of
             Inl e \<Rightarrow> Inl e
           | Inr s1 \<Rightarrow>
               if Tready s1 \<and> RHready s1
               then Inr ([Some (if degf then T_degF s1 else T_degC s1), Some (RH s1)],
                         s1\<lparr>Tready := False, RHready := False\<rparr>)
               else Inr ([None, None], s1))"
    by (simp add: get_sample_def take_sample_def Let_def split: sum.splits)
  show "case get_sample degf s of
        Inl e \<Rightarrow> True
      | Inr (ret, s') \<Rightarrow>
          fetches s' = (if Tready s \<and> RHready s then fetches s else Suc (fetches s))"
    by (auto simp add: get_sample_def take_sample_def Let_def dest!: fetch_data_fetches
        split: sum.splits if_splits)
      (simp_all add: fetches_def)
qed

theorem get_sample_single_retry_witness:
  "get_sample False (driver0\<lparr>bus_rx := [frame_ok, frame_ok]\<rparr>)
     = Inr ([Some 25, Some 40],
         driver0\<lparr>T_degF := 77, T_degC := 25, RH := 40, bus_rx := [frame_ok],
           trace := [Sleep (1 / 20), BusRead 0x44 0 6]\<rparr>)
   \<and> fetches (driver0\<lparr>T_degF := 77, T_degC := 25, RH := 40, bus_rx := [frame_ok],
           trace := [Sleep (1 / 20), BusRead 0x44 0 6]\<rparr>) = Suc (fetches driver0)"
proof -
  let ?s = "driver0\<lparr>bus_rx := [frame_ok, frame_ok]\<rparr>"
  have code: "push_bit 8 (0x66 :: int) OR 0x66 = 0x6666"
    by simp
  have fetch: "fetch_data ?s
     = Inr (driver0\<lparr>Tready := True, RHready := True, T_degF := 77, T_degC := 25, RH := 40,
         bus_rx := [frame_ok], trace := [Sleep (1 / 20), BusRead 0x44 0 6]\<rparr>)"
    by (simp add: fetch_data_def read_i2c_block_data_def sleep_def emit_def driver0_def
        init_def blank_def frame_ok_def process_data_frame example_checksums
        example_conversions code)
  have flags: "\<not> (Tready ?s \<and> RHready ?s)"
    by (simp add: driver0_def init_def)
  from get_sample_single_retry [where degf = False and s = "?s"] show ?thesis
    by (simp add: fetch flags)
      (simp add: fetches_def driver0_def init_def blank_def)
qed

text \<open>A fetch sets both ready flags anew: what they were before does not matter.\<close>

lemma fetch_data_ignores_flags:
  "fetch_data (s\<lparr>Tready := a, RHready := b\<rparr>) = fetch_data s"
  by (simp add: fetch_data_def read_i2c_block_data_def process_data_def sleep_def
      write_byte_data_def print_def emit_def Let_def split: list.splits)

text \<open>
  Claim C10, as stated: the single ready flag left set on the path of \<open>[None, None]\<close> can
  pair with the other channel on a later call. A frame with only the humidity valid
  followed by a frame with only the temperature valid: the first call returns
  \<open>[None, None]\<close> and leaves \<open>RHready\<close> set; the second call fetches, which sets
  \<open>Tready\<close> and clears \<open>RHready\<close>, and returns \<open>[None, None]\<close> again, although each
  channel has been read once with a valid checksum.
\<close>

theorem get_sample_no_pairing_counterexample:
  "get_sample True (driver0\<lparr>bus_rx := [frame_rh_only, frame_t_only]\<rparr>)
     = Inr ([None, None],
         driver0\<lparr>RHready := True, RH := 40, bus_rx := [frame_t_only],
           trace := [Sleep (1 / 20), BusRead 0x44 0 6, Print msg_temp_chk]\<rparr>)
   \<and> get_sample True
        (driver0\<lparr>RHready := True, RH := 40, bus_rx := [frame_t_only],
           trace := [Sleep (1 / 20), BusRead 0x44 0 6, Print msg_temp_chk]\<rparr>)
     = Inr ([None, None],
         driver0\<lparr>Tready := True, RHready := False, T_degF := 77, T_degC := 25, RH := 40,
           bus_rx := [],
           trace := [Sleep (1 / 20), BusRead 0x44 0 6, Print msg_temp_chk,
             Sleep (1 / 20), BusRead 0x44 0 6, Print msg_rh_chk]\<rparr>)"
proof -
  have code: "push_bit 8 (0x66 :: int) OR 0x66 = 0x6666"
    by simp
  have bad: "crc_eval [0x66, 0x66] 0 = False"
    using example_checksums(2) by simp
  show ?thesis
    by (simp add: get_sample_def fetch_data_def read_i2c_block_data_def sleep_def emit_def
        print_def driver0_def init_def blank_def frame_rh_only_def frame_t_only_def
        process_data_frame example_checksums bad example_conversions code)
qed

text \<open>
  Claim C10, amended. \<open>get_sample\<close> never returns exactly one value: a call that returns
  gives two values, with both flags cleared, or \<open>[None, None]\<close>, and a call that raises
  passes on what the fetch raised. On the path of \<open>[None, None]\<close> the driver is left
  exactly as the fetch left it, so a ready flag that the fetch set for one channel is
  still set (not consumed). The flag does not pair with the other channel later: the
  next fetch sets both flags from its own frame, whatever they were.
\<close>

theorem get_sample_both_or_none:
  "(case get_sample degf s of
      Inl e \<Rightarrow> fetch_data s = Inl e
    | Inr (ret, s') \<Rightarrow>
        (\<exists>t h. ret = [Some t, Some h] \<and> Tready s' = False \<and> RHready s' = False)
        \<or> (ret = [None, None] \<and> fetch_data s = Inr s'))
   \<and> fetch_data (s\<lparr>Tready := a, RHready := b\<rparr>) = fetch_data s"
  by (auto simp add: get_sample_def take_sample_def Let_def fetch_data_ignores_flags
      split: sum.splits)

theorem get_sample_both_or_none_witness:
  "get_sample True (driver0\<lparr>bus_rx := [frame_rh_only]\<rparr>)
     = Inr ([None, None],
         driver0\<lparr>RHready := True, RH := 40, bus_rx := [],
           trace := [Sleep (1 / 20), BusRead 0x44 0 6, Print msg_temp_chk]\<rparr>)
   \<and> fetch_data (driver0\<lparr>bus_rx := [frame_rh_only]\<rparr>)
     = Inr (driver0\<lparr>RHready := True, RH := 40, bus_rx := [],
           trace := [Sleep (1 / 20), BusRead 0x44 0 6, Print msg_temp_chk]\<rparr>)"
proof -
  let ?s = "driver0\<lparr>bus_rx := [frame_rh_only]\<rparr>"
  have code: "push_bit 8 (0x66 :: int) OR 0x66 = 0x6666"
    by simp
  have fetch: "fetch_data ?s
     = Inr (driver0\<lparr>RHready := True, RH := 40, bus_rx := [],
         trace := [Sleep (1 / 20), BusRead 0x44 0 6, Print msg_temp_chk]\<rparr>)"
    by (simp add: fetch_data_def read_i2c_block_data_def sleep_def emit_def print_def
        driver0_def init_def blank_def frame_rh_only_def process_data_frame
        example_checksums example_conversions code)
  have ret: "get_sample True ?s
     = Inr ([None, None], driver0\<lparr>RHready := True, RH := 40, bus_rx := [],
         trace := [Sleep (1 / 20), BusRead 0x44 0 6, Print msg_temp_chk]\<rparr>)"
    by (simp add: get_sample_def fetch) (simp add: driver0_def init_def)
  from get_sample_both_or_none [where degf = True and s = "?s"] ret show ?thesis
    by simp
qed

subsection \<open>Status register\<close>

lemma get_status_byte_frame:
  assumes "bus_rx s = [d0, d1, d2] # rest"
  shows "get_status_byte s =
     Inr (if crc_eval [d0, d1] d2 then push_bit 8 d0 OR d1 else 0xFFFF,
          emit (BusRead (addr s) 0 3)
            ((sleep (1 / 20) (write_byte_data STATUS s))\<lparr>bus_rx := rest\<rparr>))"
  using assms
  by (simp add: get_status_byte_def read_i2c_block_data_def sleep_def write_byte_data_def
      emit_def eval_nat_numeral)

text \<open>
  On a status frame of three bytes \<open>get_alert\<close> sends ClearStatus and waits when the
  status is not the sentinel, and prints the warning when it is.
\<close>

lemma get_alert_frame:
  assumes "bus_rx s = [d0, d1, d2] # rest"
  shows "get_alert s =
     (let s1 = emit (BusRead (addr s) 0 3)
                 ((sleep (1 / 20) (write_byte_data STATUS s))\<lparr>bus_rx := rest\<rparr>)
      in Inr ([''null'', ''null'', ''null''],
           if (if crc_eval [d0, d1] d2 then push_bit 8 d0 OR d1 else 0xFFFF) \<noteq> 0xFFFF
           then sleep (1 / 20) (write_byte_data CLEAR_STATUS s1)
           else print msg_status_chk s1))"
  by (simp add: get_alert_def get_status_byte_frame [OF assms] Let_def drop_bit_and_small
      eval_nat_numeral)

lemma status_word_sentinel:
  fixes d0 d1 :: int
  assumes "0 \<le> d0" "d0 < 256" "0 \<le> d1" "d1 < 256"
  shows "push_bit 8 d0 OR d1 = 0xFFFF \<longleftrightarrow> d0 = 255 \<and> d1 = 255"
proof -
  have low: "take_bit 8 d1 = d1"
    using assms by (simp add: take_bit_int_eq_self)
  then have "push_bit 8 d0 OR d1 = concat_bit 8 d1 d0"
    by (simp add: concat_bit_def or.commute)
  also have "\<dots> = d1 + 256 * d0"
    using low by (simp add: concat_bit_eq push_bit_eq_mult)
  finally have "push_bit 8 d0 OR d1 = d1 + 256 * d0" .
  then show ?thesis
    using assms by presburger
qed

lemma sentinel_queries:
  assumes "get_status_byte s = Inr (0xFFFF, s1)"
  shows "alert_status s = Inr (False, print msg_status_chk s1)"
    and "command_status s = Inr (False, print msg_status_chk s1)"
    and "chksum_status s = Inr (False, print msg_status_chk s1)"
    and "get_heater_status s = Inr (False, print msg_status_chk s1)"
  using assms
  by (simp_all add: alert_status_def command_status_def chksum_status_def
      get_heater_status_def)

text \<open>
  Claim C8, as stated: the sentinel 0xFFFF is returned exactly when the checksum of the
  status frame fails. The frame \<open>[0xFF, 0xFF, 0xAC]\<close> has a valid checksum and decodes
  to 0xFFFF itself.
\<close>

theorem get_status_byte_sentinel_counterexample:
  "crc_eval [0xFF, 0xFF] 0xAC = True
   \<and> get_status_byte (blank\<lparr>bus_rx := [[0xFF, 0xFF, 0xAC]]\<rparr>)
     = Inr (0xFFFF,
         blank\<lparr>bus_rx := [],
           trace := [BusWrite 0 0xF3 0x2D, Sleep (1 / 20), BusRead 0 0 3]\<rparr>)"
  by (simp add: get_status_byte_def read_i2c_block_data_def sleep_def write_byte_data_def
      emit_def blank_def crc_eval_def crc_final_def command_defs eval_nat_numeral)

text \<open>
  Claim C8, amended. For a status frame of three bytes, \<open>get_status_byte\<close> returns the
  decoded 16-bit value when the checksum verifies and 0xFFFF when it fails; the result
  is 0xFFFF if and only if the checksum fails or both status bytes are 0xFF. Whenever the
  result is 0xFFFF, \<open>alert_status\<close>, \<open>command_status\<close>, \<open>chksum_status\<close> and
  \<open>get_heater_status\<close> each return false after printing the warning, and none raises.
\<close>

theorem get_status_byte_sentinel:
  assumes "bus_rx s = [d0, d1, d2] # rest"
    and "0 \<le> d0" "d0 < 256" "0 \<le> d1" "d1 < 256"
  shows "\<exists>v s1. get_status_byte s = Inr (v, s1)
     \<and> v = (if crc_eval [d0, d1] d2 then push_bit 8 d0 OR d1 else 0xFFFF)
     \<and> (v = 0xFFFF \<longleftrightarrow> \<not> crc_eval [d0, d1] d2 \<or> (d0 = 255 \<and> d1 = 255))
     \<and> (v = 0xFFFF \<longrightarrow>
          alert_status s = Inr (False, print msg_status_chk s1)
        \<and> command_status s = Inr (False, print msg_status_chk s1)
        \<and> chksum_status s = Inr (False, print msg_status_chk s1)
        \<and> get_heater_status s = Inr (False, print msg_status_chk s1))"
proof -
  let ?v = "if crc_eval [d0, d1] d2 then push_bit 8 d0 OR d1 else (0xFFFF :: int)"
  let ?s1 = "emit (BusRead (addr s) 0 3)
     ((sleep (1 / 20) (write_byte_data STATUS s))\<lparr>bus_rx := rest\<rparr>)"
  have run: "get_status_byte s = Inr (?v, ?s1)"
    using assms(1) by (rule get_status_byte_frame)
  have iff: "?v = 0xFFFF \<longleftrightarrow> \<not> crc_eval [d0, d1] d2 \<or> (d0 = 255 \<and> d1 = 255)"
    using status_word_sentinel [OF assms(2-5)] by simp
  have queries: "?v = 0xFFFF \<longrightarrow>
          alert_status s = Inr (False, print msg_status_chk ?s1)
        \<and> command_status s = Inr (False, print msg_status_chk ?s1)
        \<and> chksum_status s = Inr (False, print msg_status_chk ?s1)
        \<and> get_heater_status s = Inr (False, print msg_status_chk ?s1)"
  proof
    assume "?v = 0xFFFF"
    with run have "get_status_byte s = Inr (0xFFFF, ?s1)"
      by simp
    then show "alert_status s = Inr (False, print msg_status_chk ?s1)
        \<and> command_status s = Inr (False, print msg_status_chk ?s1)
        \<and> chksum_status s = Inr (False, print msg_status_chk ?s1)
        \<and> get_heater_status s = Inr (False, print msg_status_chk ?s1)"
      by (simp add: sentinel_queries)
  qed
  from run iff queries show ?thesis
    by blast
qed

theorem get_status_byte_sentinel_witness:
  "bus_rx (driver0\<lparr>bus_rx := [[0x80, 0x10, 0x00]]\<rparr>) = [0x80, 0x10, 0x00] # []
   \<and> crc_eval [0x80, 0x10] 0x00 = False
   \<and> (\<exists>s1. get_status_byte (driver0\<lparr>bus_rx := [[0x80, 0x10, 0x00]]\<rparr>) = Inr (0xFFFF, s1)
        \<and> alert_status (driver0\<lparr>bus_rx := [[0x80, 0x10, 0x00]]\<rparr>)
            = Inr (False, print msg_status_chk s1)
        \<and> command_status (driver0\<lparr>bus_rx := [[0x80, 0x10, 0x00]]\<rparr>)
            = Inr (False, print msg_status_chk s1)
        \<and> chksum_status (driver0\<lparr>bus_rx := [[0x80, 0x10, 0x00]]\<rparr>)
            = Inr (False, print msg_status_chk s1)
        \<and> get_heater_status (driver0\<lparr>bus_rx := [[0x80, 0x10, 0x00]]\<rparr>)
            = Inr (False, print msg_status_chk s1))"
proof -
  let ?s = "driver0\<lparr>bus_rx := [[0x80, 0x10, 0x00]]\<rparr>"
  have rx: "bus_rx ?s = [0x80, 0x10, 0x00] # []"
    by simp
  from get_status_byte_sentinel [OF rx] rx show ?thesis
    by (auto simp add: example_checksums)
qed

subsection \<open>Logging loops\<close>

lemma logging_file_body_ends_with_write:
  "logging_file_body str_float s = Inr s' \<Longrightarrow>
     \<exists>line. last (trace s') = FileWrite (LOGGING_PATH s') ''a'' line"
  by (auto simp add: logging_file_body_def now_def emit_def Let_def get_sample_def
      take_sample_def split: sum.splits prod.splits if_splits)

lemma logging_sql_body_ends_with_sleep:
  "logging_sql_body str_float tb log_interval s = Inr s' \<Longrightarrow>
     last (trace s') = Sleep log_interval"
  by (auto simp add: logging_sql_body_def now_def emit_def sleep_def Let_def
      split: sum.splits prod.splits)

text \<open>
  \<open>start_logging_file\<close> on a driver in periodic mode, followed over two rounds of its
  loop: between the two writes there is the fetch of the second sample, with its own
  settle delays, and nothing else.
\<close>

lemma start_logging_file_two_rounds:
  "map_sum id trace (start_logging_file str_float 2 (logger0\<lparr>bus_rx := [frame_ok]\<rparr>))
     = Inr [Print ''Logging to file started!'', BusWrite 0x44 0x21 0x26,
         FileWrite ''log.csv'' ''a''
           (line_of str_float ''2026-01-01 00:00:00'' (Some 77) (Some 40)),
         Sleep (1 / 20), BusWrite 0x44 0xE0 0x00, Sleep (1 / 10), BusRead 0x44 0 6,
         FileWrite ''log.csv'' ''a''
           (line_of str_float ''2026-01-01 00:00:00'' (Some 77) (Some 40))]"
proof -
  have code: "push_bit 8 (0x66 :: int) OR 0x66 = 0x6666"
    by simp
  show ?thesis
    by (simp add: start_logging_file_def ensure_periodic_def first_init_read_def
        init_read_def logging_file_body_def get_sample_def take_sample_def fetch_data_def
        read_i2c_block_data_def process_data_frame example_checksums example_conversions
        code now_def emit_def print_def sleep_def write_byte_data_def command_defs
        logger0_def driver0_def init_def blank_def frame_ok_def eval_nat_numeral)
qed

text \<open>
  Claim C9. Every round of both logging loops should sample, write the line and then
  sleep for the logging interval. A round of the loop of \<open>start_logging_file\<close> ends
  with the write to the file (\<open>logging_file_body_ends_with_write\<close>): it has no sleep and
  the function has no interval. From a driver with a sample ready the round leaves the
  write as its only effect, where the round of \<open>start_logging_sql\<close> writes, queries and
  sleeps.
\<close>

theorem logging_file_body_no_sleep:
  "logging_file_body str_float logger0
     = Inr (logger0\<lparr>Tready := False, RHready := False, ticks := 1,
         trace := [FileWrite ''log.csv'' ''a''
           (line_of str_float ''2026-01-01 00:00:00'' (Some 77) (Some 40))]\<rparr>)
   \<and> logging_sql_body str_float tb log_interval logger0
     = Inr (logger0\<lparr>Tready := False, RHready := False, ticks := 1,
         trace := [FileWrite ''log.csv'' ''w''
             (line_of str_float ''2026-01-01 00:00:00'' (Some 77) (Some 40)),
           SqlQuery (''INSERT INTO '' @ tb @ '' (time, temp, rh) VALUES ('' @ sq
             @ ''2026-01-01 00:00:00'' @ sq @ '','' @ str_float 77 @ '','' @ str_float 40
             @ '')''),
           Sleep log_interval]\<rparr>)"
  by (simp add: logging_file_body_def logging_sql_body_def get_sample_def take_sample_def
      now_def emit_def sleep_def logger0_def driver0_def init_def blank_def str_opt_def)

subsection \<open>Checksum\<close>

lemma high_bit: "(x :: int) AND 0x80 \<noteq> 0 \<longleftrightarrow> bit x 7"
proof -
  have "(0x80 :: int) = 2 ^ 7"
    by simp
  then show ?thesis
    by (simp only: and_exp_eq_0_iff_not_bit) simp
qed

lemma crc_step_word:
  "(word_of_int (if x AND 0x80 \<noteq> 0 then push_bit 1 x XOR 0x31 else push_bit 1 x) :: 8 word)
     = crc8_shift (word_of_int x)"
  by (simp add: high_bit crc8_shift_def of_int_xor_eq bit_word_of_int_iff)

lemma crc_shifts_word:
  "(word_of_int (crc_shifts n x) :: 8 word) = (crc8_shift ^^ n) (word_of_int x)"
proof (induction n arbitrary: x)
  case 0
  show ?case
    by simp
next
  case (Suc n)
  show ?case
    by (simp only: crc_shifts.simps Suc.IH crc_step_word funpow_Suc_right o_apply)
qed

lemma word_of_int_low_byte: "(word_of_int (x AND 0xFF) :: 8 word) = word_of_int x"
proof -
  have "(0xFF :: int) = mask 8"
    by (simp add: mask_eq_exp_minus_1)
  then have "x AND 0xFF = take_bit 8 x"
    by (simp add: take_bit_eq_mask)
  then show ?thesis
    by (simp add: word_of_int_eq_iff)
qed

lemma crc_process_word:
  "(word_of_int (crc_process x ds) :: 8 word)
     = foldl crc8_byte (word_of_int x) (map word_of_int ds)"
  by (induction ds arbitrary: x)
    (simp_all add: word_of_int_low_byte crc_shifts_word crc8_byte_def of_int_xor_eq)

lemma crc_process_range:
  "0 \<le> x \<Longrightarrow> x < 256 \<Longrightarrow> 0 \<le> crc_process x ds \<and> crc_process x ds < 256"
proof (induction ds arbitrary: x)
  case Nil
  then show ?case
    by simp
next
  case (Cons d ds)
  have "0 \<le> crc_shifts 8 (x XOR d) AND 0xFF"
    by simp
  moreover have "crc_shifts 8 (x XOR d) AND 0xFF < 256"
    using AND_upper2 [of 255 "crc_shifts 8 (x XOR d)"] by simp
  ultimately show ?case
    using Cons.IH by simp
qed

text \<open>The integer register of the library computes the checksum of the specification.\<close>

lemma crc_process_checksum:
  "crc_process 0xFF (map uint bs) = uint (checksum bs)"
proof -
  let ?c = "crc_process 0xFF (map uint bs)"
  have w: "(word_of_int ?c :: 8 word) = checksum bs"
    by (simp add: crc_process_word checksum_def o_def)
  have "0 \<le> ?c \<and> ?c < 256"
    by (rule crc_process_range) simp_all
  then have "uint (word_of_int ?c :: 8 word) = ?c"
    by (simp add: uint_word_of_int_eq take_bit_int_eq_self)
  with w show ?thesis
    by simp
qed

text \<open>The example of the sensor's data sheet: the checksum of 0xBEEF is 0x92.\<close>

lemma checksum_datasheet: "checksum [0xBE, 0xEF] = 0x92"
  by code_simp

text \<open>
  Claim C4. For every payload of two bytes \<open>a\<close>, \<open>b\<close> and every expected byte \<open>e\<close>,
  \<open>crc_eval\<close> returns true if and only if the CRC-8 of the payload (polynomial 0x31,
  initial value 0xFF, no reflection, no output XOR) equals \<open>e\<close>; against any Python
  integer \<open>c\<close> it returns whether \<open>c\<close> is that checksum. \<open>crc_eval\<close> is a function of
  its two arguments alone.
\<close>

theorem crc_eval_verify:
  "crc_eval [uint a, uint b] (uint e) = verify [a, b] e
   \<and> crc_eval [uint a, uint b] c = (uint (checksum [a, b]) = c)
   \<and> checksum [0xBE, 0xEF] = 0x92"
proof -
  have run: "crc_process 0xFF [uint a, uint b] = uint (checksum [a, b])"
    using crc_process_checksum [of "[a, b]"] by simp
  have "crc_eval [uint a, uint b] c = (uint (checksum [a, b]) = c)" for c
    unfolding crc_eval_def crc_final_def Let_def run by simp
  moreover have "(uint (checksum [a, b]) = uint e) = (checksum [a, b] = e)"
    by (simp add: word_uint_eq_iff)
  ultimately show ?thesis
    by (simp add: verify_def checksum_datasheet)
qed

subsection \<open>Conversions\<close>

lemma round_half_even_near: "\<bar>of_int (round_half_even x) - x\<bar> \<le> 1 / 2"
proof -
  have "of_int \<lfloor>x\<rfloor> \<le> x" "x < of_int \<lfloor>x\<rfloor> + 1"
    by linarith+
  then show ?thesis
    by (auto simp add: round_half_even_def Let_def)
qed

lemma round_half_even_unique:
  assumes "of_int n - 1 / 2 < x" and "x < of_int n + 1 / 2"
  shows "round_half_even x = n"
proof -
  have fl: "of_int \<lfloor>x\<rfloor> \<le> x" "x < of_int \<lfloor>x\<rfloor> + 1"
    by linarith+
  have "\<lfloor>x\<rfloor> = n \<or> \<lfloor>x\<rfloor> = n - 1"
    using assms by linarith
  then show ?thesis
  proof
    assume "\<lfloor>x\<rfloor> = n"
    with assms show ?thesis
      by (simp add: round_half_even_def Let_def)
  next
    assume "\<lfloor>x\<rfloor> = n - 1"
    with assms fl show ?thesis
      by (simp add: round_half_even_def Let_def)
  qed
qed

lemma round_half_even_stable:
  assumes far: "\<And>n. d \<le> \<bar>y - (of_int n + 1 / 2)\<bar>"
    and near: "\<bar>x - y\<bar> < d"
  shows "round_half_even x = round_half_even y"
proof -
  let ?n = "round_half_even y"
  have mid: "\<bar>of_int ?n - y\<bar> \<le> 1 / 2"
    by (rule round_half_even_near)
  have lo: "d \<le> \<bar>y - (of_int (?n - 1) + 1 / 2)\<bar>"
    by (rule far)
  have hi: "d \<le> \<bar>y - (of_int ?n + 1 / 2)\<bar>"
    by (rule far)
  have "of_int ?n - 1 / 2 < x" "x < of_int ?n + 1 / 2"
    using mid lo hi near by (simp_all add: abs_if split: if_splits) 
  then show ?thesis
    by (rule round_half_even_unique)
qed

lemma off_tie:
  assumes "odd q" and "0 < q" and "even p"
  shows "1 / (2 * of_int q) \<le> \<bar>of_int p / of_int q - (of_int n + 1 / 2 :: rat)\<bar>"
proof -
  define N where "N = 2 * p - (2 * n + 1) * q"
  have "odd N"
    using assms(1) by (simp add: N_def)
  then have "N \<noteq> 0"
    by (cases "N = 0") simp_all
  then have "1 \<le> \<bar>N\<bar>"
    by linarith
  then have "(of_int 1 :: rat) \<le> of_int \<bar>N\<bar>"
    by (simp only: of_int_le_iff)
  then have one: "(1 :: rat) \<le> \<bar>of_int N\<bar>"
    by simp
  have q: "(0 :: rat) < of_int q"
    using assms(2) by simp
  have "of_int N / (2 * of_int q) = (2 * of_int p - (2 * of_int n + 1) * of_int q) / (2 * of_int q :: rat)"
    by (simp add: N_def)
  also have "\<dots> = of_int p / of_int q - (of_int n + 1 / 2)"
    using q by (simp add: field_simps)
  finally have eq: "of_int p / of_int q - (of_int n + 1 / 2 :: rat) = of_int N / (2 * of_int q)"
    by simp
  have "\<bar>of_int N / (2 * of_int q) :: rat\<bar> = \<bar>of_int N\<bar> / \<bar>2 * of_int q\<bar>"
    by (rule abs_divide)
  also have "\<bar>2 * of_int q :: rat\<bar> = 2 * of_int q"
    using q by simp
  finally have ab: "\<bar>of_int N / (2 * of_int q) :: rat\<bar> = \<bar>of_int N\<bar> / (2 * of_int q)" .
  have "1 / (2 * of_int q) \<le> \<bar>of_int N :: rat\<bar> / (2 * of_int q)"
    using one q by (intro divide_right_mono) simp_all
  then show ?thesis
    by (simp only: eq ab)
qed

lemma binexp_bounds:
  assumes "x \<noteq> 0"
  shows "2 powi binexp x \<le> \<bar>x\<bar>" and "\<bar>x\<bar> < 2 powi (binexp x + 1)"
proof -
  obtain a b where q: "quotient_of \<bar>x\<bar> = (a, b)"
    by (cases "quotient_of \<bar>x\<bar>")
  have b: "0 < b" using q by (rule quotient_of_denom_pos)
  have x: "\<bar>x\<bar> = of_int a / of_int b" using q by (rule quotient_of_div)
  have a: "0 < a"
  proof -
    have "0 < \<bar>x\<bar>" using assms by simp
    then have "0 < (of_int a / of_int b :: rat)" using x by simp
    then show ?thesis using b by (simp add: zero_less_divide_iff)
  qed
  let ?la = "bitlen a" and ?lb = "bitlen b"
  have la: "1 \<le> ?la" using a by (simp add: bitlen_alt_def)
  have lb: "1 \<le> ?lb" using b by (simp add: bitlen_alt_def)
  have ba: "2 ^ nat (?la - 1) \<le> a" "a < 2 ^ nat ?la"
    using bitlen_bounds [OF a] by simp_all
  have bb: "2 ^ nat (?lb - 1) \<le> b" "b < 2 ^ nat ?lb"
    using bitlen_bounds [OF b] by simp_all
  have ra: "(2 :: rat) powi (?la - 1) \<le> of_int a" "of_int a < (2 :: rat) powi ?la"
  proof -
    have "(of_int (2 ^ nat (?la - 1)) :: rat) \<le> of_int a"
      using ba(1) by (simp only: of_int_le_iff)
    then show "(2 :: rat) powi (?la - 1) \<le> of_int a"
      using la by (simp add: power_int_def)
    have "(of_int a :: rat) < of_int (2 ^ nat ?la)"
      using ba(2) by (simp only: of_int_less_iff)
    then show "of_int a < (2 :: rat) powi ?la"
      using la by (simp add: power_int_def)
  qed
  have rb: "(2 :: rat) powi (?lb - 1) \<le> of_int b" "of_int b < (2 :: rat) powi ?lb"
  proof -
    have "(of_int (2 ^ nat (?lb - 1)) :: rat) \<le> of_int b"
      using bb(1) by (simp only: of_int_le_iff)
    then show "(2 :: rat) powi (?lb - 1) \<le> of_int b"
      using lb by (simp add: power_int_def)
    have "(of_int b :: rat) < of_int (2 ^ nat ?lb)"
      using bb(2) by (simp only: of_int_less_iff)
    then show "of_int b < (2 :: rat) powi ?lb"
      using lb by (simp add: power_int_def)
  qed
  have bpos: "(0 :: rat) < of_int b" using b by simp
  have apos: "(0 :: rat) < of_int a" using a by simp
  have p1: "(0 :: rat) < 2 powi k" for k by simp
  have low: "(2 :: rat) powi (?la - ?lb - 1) \<le> \<bar>x\<bar>"
  proof -
    have "(2 :: rat) powi (?la - ?lb - 1) = 2 powi ((?la - 1) - ?lb)"
      by (simp add: algebra_simps)
    also have "\<dots> = 2 powi (?la - 1) / 2 powi ?lb"
      by (rule power_int_diff) simp
    also have "\<dots> \<le> of_int a / 2 powi ?lb"
      using ra(1) by (simp add: divide_right_mono)
    also have "\<dots> \<le> of_int a / of_int b"
      using rb(2) apos bpos by (simp add: frac_le)
    finally show ?thesis using x by simp
  qed
  have high: "\<bar>x\<bar> < (2 :: rat) powi (?la - ?lb + 1)"
  proof -
    have "of_int a / of_int b < (2 :: rat) powi ?la / of_int b"
      using ra(2) bpos by (simp add: divide_strict_right_mono)
    also have "\<dots> \<le> 2 powi ?la / 2 powi (?lb - 1)"
      using rb(1) bpos by (simp add: frac_le)
    also have "\<dots> = 2 powi (?la - (?lb - 1))"
      by (rule power_int_diff [symmetric]) simp
    also have "?la - (?lb - 1) = ?la - ?lb + 1"
      by simp
    finally show ?thesis using x by simp
  qed
  show "2 powi binexp x \<le> \<bar>x\<bar>"
    using low by (simp add: binexp_def q Let_def)
  show "\<bar>x\<bar> < 2 powi (binexp x + 1)"
    using high by (auto simp add: binexp_def q Let_def not_le)
qed

lemma fl_error: "\<bar>fl x - x\<bar> \<le> \<bar>x\<bar> / 2 ^ 53"
proof (cases "x = 0")
  case True
  then show ?thesis by (simp add: fl_def)
next
  case False
  let ?u = "(2 :: rat) powi (binexp x - 52)"
  let ?m = "round_half_even (x / ?u)"
  have u: "0 < ?u" by simp
  have "\<bar>of_int ?m - x / ?u\<bar> \<le> 1 / 2"
    by (rule round_half_even_near)
  then have "\<bar>of_int ?m - x / ?u\<bar> * ?u \<le> 1 / 2 * ?u"
    using u by (simp only: mult_le_cancel_right_pos)
  moreover have "\<bar>of_int ?m - x / ?u\<bar> * ?u = \<bar>of_int ?m * ?u - x\<bar>"
  proof -
    have "\<bar>of_int ?m - x / ?u\<bar> * ?u = \<bar>(of_int ?m - x / ?u) * ?u\<bar>"
      using u by (simp add: abs_mult)
    also have "(of_int ?m - x / ?u) * ?u = of_int ?m * ?u - x"
      using u by (simp add: field_simps)
    finally show ?thesis .
  qed
  ultimately have step: "\<bar>of_int ?m * ?u - x\<bar> \<le> ?u / 2"
    by simp
  have "?u = 2 powi binexp x / 2 ^ 52"
    by (simp add: power_int_diff)
  also have "\<dots> \<le> \<bar>x\<bar> / 2 ^ 52"
    using binexp_bounds(1) [OF False] by (simp add: divide_right_mono)
  finally have "?u / 2 \<le> \<bar>x\<bar> / 2 ^ 53"
    by simp
  with step show ?thesis
    using False by (simp add: fl_def Let_def)
qed

lemma chain_add_C:
  fixes x x1 y1 z1 :: rat
  assumes "0 \<le> x" "x \<le> 1"
    and "\<bar>x1 - x\<bar> \<le> \<bar>x\<bar> / 2 ^ 53"
    and "\<bar>y1 - 175 * x1\<bar> \<le> \<bar>175 * x1\<bar> / 2 ^ 53"
    and "\<bar>z1 - (- 45 + y1)\<bar> \<le> \<bar>- 45 + y1\<bar> / 2 ^ 53"
  shows "\<bar>z1 * 1000 - (- 45 + 175 * x) * 1000\<bar> < 1 / (2 * 65535)"
  using assms by (simp add: abs_if split: if_splits)

lemma chain_add_F:
  fixes x x1 y1 z1 :: rat
  assumes "0 \<le> x" "x \<le> 1"
    and "\<bar>x1 - x\<bar> \<le> \<bar>x\<bar> / 2 ^ 53"
    and "\<bar>y1 - 315 * x1\<bar> \<le> \<bar>315 * x1\<bar> / 2 ^ 53"
    and "\<bar>z1 - (- 49 + y1)\<bar> \<le> \<bar>- 49 + y1\<bar> / 2 ^ 53"
  shows "\<bar>z1 * 1000 - (- 49 + 315 * x) * 1000\<bar> < 1 / (2 * 65535)"
  using assms by (simp add: abs_if split: if_splits)

lemma chain_mul:
  fixes x x1 y1 :: rat
  assumes "0 \<le> x" "x \<le> 1"
    and "\<bar>x1 - x\<bar> \<le> \<bar>x\<bar> / 2 ^ 53"
    and "\<bar>y1 - 100 * x1\<bar> \<le> \<bar>100 * x1\<bar> / 2 ^ 53"
  shows "\<bar>y1 * 1000 - (100 * x) * 1000\<bar> < 1 / (2 * 65535)"
  using assms by (simp add: abs_if split: if_splits)

lemma unit_code:
  assumes "0 \<le> c" and "c \<le> 65535"
  shows "0 \<le> (of_int c / 65535 :: rat)" and "(of_int c / 65535 :: rat) \<le> 1"
  using assms by simp_all

lemma conv_T_degC_exact:
  assumes "0 \<le> c" and "c \<le> 65535"
  shows "conv_T_degC c = fl (round3 (- 45 + 175 * of_int c / 65535))"
proof -
  let ?x = "of_int c / 65535 :: rat"
  let ?x1 = "fl ?x"
  let ?y1 = "fl (175 * ?x1)"
  let ?z1 = "fl (- 45 + ?y1)"
  have near: "\<bar>?z1 * 1000 - (- 45 + 175 * ?x) * 1000\<bar> < 1 / (2 * 65535)"
    by (rule chain_add_C [OF unit_code [OF assms] fl_error fl_error fl_error])
  have "(- 45 + 175 * ?x) * 1000 = of_int (175000 * c - 45000 * 65535) / of_int 65535"
    by (simp add: field_simps)
  moreover have "1 / (2 * of_int 65535) 
      \<le> \<bar>of_int (175000 * c - 45000 * 65535) / of_int 65535 - (of_int n + 1 / 2 :: rat)\<bar>" for n
    by (rule off_tie) simp_all
  ultimately have far: "1 / (2 * 65535) \<le> \<bar>(- 45 + 175 * ?x) * 1000 - (of_int n + 1 / 2)\<bar>" for n
    by (simp only: of_int_numeral)
  have "round_half_even (?z1 * 1000) = round_half_even ((- 45 + 175 * ?x) * 1000)"
    using far near by (rule round_half_even_stable)
  then show ?thesis
    by (simp add: conv_T_degC_def py_round3_def round3_def float_add_def float_mul_def
        int_truediv_def)
qed

lemma conv_T_degF_exact:
  assumes "0 \<le> c" and "c \<le> 65535"
  shows "conv_T_degF c = fl (round3 (- 49 + 315 * of_int c / 65535))"
proof -
  let ?x = "of_int c / 65535 :: rat"
  let ?x1 = "fl ?x"
  let ?y1 = "fl (315 * ?x1)"
  let ?z1 = "fl (- 49 + ?y1)"
  have near: "\<bar>?z1 * 1000 - (- 49 + 315 * ?x) * 1000\<bar> < 1 / (2 * 65535)"
    by (rule chain_add_F [OF unit_code [OF assms] fl_error fl_error fl_error])
  have "(- 49 + 315 * ?x) * 1000 = of_int (315000 * c - 49000 * 65535) / of_int 65535"
    by (simp add: field_simps)
  moreover have "1 / (2 * of_int 65535) 
      \<le> \<bar>of_int (315000 * c - 49000 * 65535) / of_int 65535 - (of_int n + 1 / 2 :: rat)\<bar>" for n
    by (rule off_tie) simp_all
  ultimately have far: "1 / (2 * 65535) \<le> \<bar>(- 49 + 315 * ?x) * 1000 - (of_int n + 1 / 2)\<bar>" for n
    by (simp only: of_int_numeral)
  have "round_half_even (?z1 * 1000) = round_half_even ((- 49 + 315 * ?x) * 1000)"
    using far near by (rule round_half_even_stable)
  then show ?thesis
    by (simp add: conv_T_degF_def py_round3_def round3_def float_add_def float_mul_def
        int_truediv_def)
qed

lemma conv_RH_exact:
  assumes "0 \<le> c" and "c \<le> 65535"
  shows "conv_RH c = fl (round3 (100 * of_int c / 65535))"
proof -
  let ?x = "of_int c / 65535 :: rat"
  let ?x1 = "fl ?x"
  let ?y1 = "fl (100 * ?x1)"
  have near: "\<bar>?y1 * 1000 - (100 * ?x) * 1000\<bar> < 1 / (2 * 65535)"
    by (rule chain_mul [OF unit_code [OF assms] fl_error fl_error])
  have "(100 * ?x) * 1000 = of_int (100000 * c) / of_int 65535"
    by (simp add: field_simps)
  moreover have "1 / (2 * of_int 65535)
      \<le> \<bar>of_int (100000 * c) / of_int 65535 - (of_int n + 1 / 2 :: rat)\<bar>" for n
    by (rule off_tie) simp_all
  ultimately have far: "1 / (2 * 65535) \<le> \<bar>(100 * ?x) * 1000 - (of_int n + 1 / 2)\<bar>" for n
    by (simp only: of_int_numeral)
  have "round_half_even (?y1 * 1000) = round_half_even ((100 * ?x) * 1000)"
    using far near by (rule round_half_even_stable)
  then show ?thesis
    by (simp add: conv_RH_def py_round3_def round3_def float_mul_def int_truediv_def)
qed

lemma round3_near: "\<bar>round3 x - x\<bar> \<le> 1 / 2000"
  using round_half_even_near [of "x * 1000"] by (simp add: round3_def field_simps)

lemma conv_boundaries:
  "conv_T_degC 0 = - 45" "conv_T_degC 65535 = 130"
  "conv_T_degF 0 = - 49" "conv_T_degF 65535 = 266"
  "conv_RH 0 = 0" "conv_RH 65535 = 100"
  by code_simp+

text \<open>
  Claim C5. For every 16-bit raw code the three conversions of \<open>process_data\<close>, computed
  in binary64 arithmetic and passed through \<open>round(_, 3)\<close>, return the float nearest to
  the exact value of the formula rounded to three decimal places: the rounding errors of
  the three float operations never move the value across a rounding boundary. Code 0
  gives -45.0, -49.0 and 0.0, code 65535 gives 130.0, 266.0 and 100.0, exactly.
\<close>

theorem conversions_rounded:
  assumes "0 \<le> code" and "code \<le> 65535"
  shows "conv_T_degC code = fl (round3 (raw_to_temp_c code))
     \<and> conv_T_degF code = fl (round3 (raw_to_temp_f code))
     \<and> conv_RH code = fl (round3 (raw_to_rh code))
     \<and> conv_T_degC 0 = - 45 \<and> conv_T_degC 65535 = 130
     \<and> conv_T_degF 0 = - 49 \<and> conv_T_degF 65535 = 266
     \<and> conv_RH 0 = 0 \<and> conv_RH 65535 = 100"
  using conv_T_degC_exact [OF assms] conv_T_degF_exact [OF assms] conv_RH_exact [OF assms]
  by (simp add: raw_to_temp_c_def raw_to_temp_f_def raw_to_rh_def conv_boundaries)

theorem conversions_rounded_witness:
  "(0 :: int) \<le> 32768 \<and> (32768 :: int) \<le> 65535
   \<and> conv_T_degC 32768 = fl (42501 / 1000)
   \<and> conv_T_degF 32768 = fl (108502 / 1000)
   \<and> conv_RH 32768 = fl (50001 / 1000)"
proof -
  have c: "round3 (raw_to_temp_c 32768) = 42501 / 1000"
    by code_simp
  have f: "round3 (raw_to_temp_f 32768) = 108502 / 1000"
    by code_simp
  have r: "round3 (raw_to_rh 32768) = 50001 / 1000"
    by code_simp
  have lo: "(0 :: int) \<le> 32768" and hi: "(32768 :: int) \<le> 65535"
    by simp_all
  from conversions_rounded [OF lo hi] show ?thesis
    by (simp add: c f r)
qed

end
